theory Spec2Isabelle
  imports Main
begin

section \<open>drf\_haystack.viewsets: the more-like-this detail route\<close>

text \<open>
  \<^verbatim>\<open>HaystackViewSet\<close> (src/drf\_haystack/viewsets.py) adds one method to the mixins it
  inherits, \<^verbatim>\<open>more_like_this\<close>, registered by the decorator
  \<^verbatim>\<open>@detail_route(methods=["get"], url_path="more-like-this")\<close>.
  The record below holds the decorator's arguments; \<open>detail\<close> is what the decorator's
  name says (a route under the detail URL of one object).
\<close>

record route =
  methods :: "string list"
  url_path :: string
  detail :: bool

definition more_like_this_route :: route where
  "more_like_this_route = \<lparr>methods = [''get''], url_path = ''more-like-this'', detail = True\<rparr>"

text \<open>
  The URL itself is assembled by the framework's router, which is not part of the
  repository. The method's docstring documents the result: "This will add ie.
  \<^verbatim>\<open>^search/{pk}/more-like-this/$\<close> to your existing \<^verbatim>\<open>^search\<close> pattern." The function
  below writes that documented pattern down for a prefix and a route.
\<close>

definition detail_route_pattern :: "string \<Rightarrow> route \<Rightarrow> string" where
  "detail_route_pattern prefix r = prefix @ ''/{pk}/'' @ url_path r @ ''/''"

text \<open>
  Everything the method calls lives outside the file: \<^verbatim>\<open>get_queryset\<close>,
  \<^verbatim>\<open>filter_queryset\<close>, \<^verbatim>\<open>get_object\<close>, \<^verbatim>\<open>paginate_queryset\<close>, \<^verbatim>\<open>get_serializer\<close> and
  \<^verbatim>\<open>get_paginated_response\<close> are methods of the view inherited from
  \<^verbatim>\<open>HaystackGenericAPIView\<close> and the framework; \<^verbatim>\<open>more_like_this\<close> is a method of the
  search queryset; \<^verbatim>\<open>.object\<close> and \<^verbatim>\<open>.data\<close> are attributes computed by the search result
  and the serializer; \<^verbatim>\<open>Response\<close> is the framework's response class. They are the
  parameters of the model. A method of the view reads and may change the view
  (\<^verbatim>\<open>self\<close>, of type \<open>'v\<close>: the paginator keeps the current page there), so it takes the
  view and returns the view with its result; any of the calls may raise, so each returns
  a sum with the exception on the left.
\<close>

datatype ('pg, 'qs) instance_arg = Page 'pg | QuerySet 'qs

record ('v, 'qs, 'res, 'obj, 'pg, 'ser, 'data, 'resp, 'e) collaborators =
  get_queryset :: "'v \<Rightarrow> 'e + 'qs \<times> 'v"
  filter_queryset :: "'qs \<Rightarrow> 'v \<Rightarrow> 'e + 'qs \<times> 'v"
  get_object :: "'v \<Rightarrow> 'e + 'res \<times> 'v"
  result_object :: "'res \<Rightarrow> 'e + 'obj"
  qs_more_like_this :: "'qs \<Rightarrow> 'obj \<Rightarrow> 'e + 'qs"
  paginate_queryset :: "'qs \<Rightarrow> 'v \<Rightarrow> 'e + 'pg option \<times> 'v"
  get_serializer :: "('pg, 'qs) instance_arg \<Rightarrow> bool \<Rightarrow> 'v \<Rightarrow> 'e + 'ser \<times> 'v"
  serializer_data :: "'ser \<Rightarrow> 'e + 'data"
  get_paginated_response :: "'data \<Rightarrow> 'v \<Rightarrow> 'e + 'resp \<times> 'v"
  Response :: "'data \<Rightarrow> 'resp"

text \<open>
  \<^verbatim>\<open>
  def more_like_this(self, request, pk=None):
      queryset = self.filter_queryset(self.get_queryset())
      mlt_queryset = queryset.more_like_this(self.get_object().object)

      page = self.paginate_queryset(mlt_queryset)
      if page is not None:
          serializer = self.get_serializer(page, many=True)
          return self.get_paginated_response(serializer.data)

      serializer = self.get_serializer(mlt_queryset, many=True)
      return Response(serializer.data)
  \<close>
  The calls are made in Python's order of evaluation; the first exception ends the
  method. The arguments \<^verbatim>\<open>request\<close> and \<^verbatim>\<open>pk\<close> are not read by the body: the object is
  the one \<^verbatim>\<open>self.get_object()\<close> returns.
\<close>

definition serialized ::
  "('v, 'qs, 'res, 'obj, 'pg, 'ser, 'data, 'resp, 'e) collaborators \<Rightarrow>
   ('pg, 'qs) instance_arg \<Rightarrow> 'v \<Rightarrow> 'e + 'data \<times> 'v" where
  "serialized m inst self =
     (case get_serializer m inst True self of
        Inl e \<Rightarrow> Inl e
      | Inr (serializer, s) \<Rightarrow>
          (case serializer_data m serializer of
             Inl e \<Rightarrow> Inl e
           | Inr d \<Rightarrow> Inr (d, s)))"

definition more_like_this ::
  "('v, 'qs, 'res, 'obj, 'pg, 'ser, 'data, 'resp, 'e) collaborators \<Rightarrow>
   'rq \<Rightarrow> 'pk option \<Rightarrow> 'v \<Rightarrow> 'e + 'resp" where
  "more_like_this m request pk self =
     (case get_queryset m self of
        Inl e \<Rightarrow> Inl e
      | Inr (qs0, s1) \<Rightarrow>
     (case filter_queryset m qs0 s1 of
        Inl e \<Rightarrow> Inl e
      | Inr (queryset, s2) \<Rightarrow>
     (case get_object m s2 of
        Inl e \<Rightarrow> Inl e
      | Inr (res, s3) \<Rightarrow>
     (case result_object m res of
        Inl e \<Rightarrow> Inl e
      | Inr obj \<Rightarrow>
     (case qs_more_like_this m queryset obj of
        Inl e \<Rightarrow> Inl e
      | Inr mlt_queryset \<Rightarrow>
     (case paginate_queryset m mlt_queryset s3 of
        Inl e \<Rightarrow> Inl e
      | Inr (page, s4) \<Rightarrow>
     (case page of
        Some p \<Rightarrow>
          (case serialized m (Page p) s4 of
             Inl e \<Rightarrow> Inl e
           | Inr (d, s5) \<Rightarrow>
               (case get_paginated_response m d s5 of
                  Inl e \<Rightarrow> Inl e
                | Inr (response, s6) \<Rightarrow> Inr response))
      | None \<Rightarrow>
          (case serialized m (QuerySet mlt_queryset) s4 of
             Inl e \<Rightarrow> Inl e
           | Inr (d, s5) \<Rightarrow> Inr (Response m d)))))))))"

subsection \<open>A small instance of the collaborators\<close>

text \<open>
  Search results are numbers, a queryset is a list of them, the view is the page size of
  its paginator (0: pagination is off), the filter keeps the even results, the queryset's
  more-like-this drops the object itself, and the serializer doubles each result.
\<close>

datatype 'd demo_response = Plain 'd | Paginated nat 'd

definition demo :: "(nat, nat list, nat, nat, nat list, nat list, nat list,
    nat list demo_response, string) collaborators" where
  "demo = \<lparr>
     get_queryset = (\<lambda>s. Inr ([1, 2, 3, 4, 6, 8], s)),
     filter_queryset = (\<lambda>qs s. Inr (filter even qs, s)),
     get_object = (\<lambda>s. Inr (4, s)),
     result_object = (\<lambda>r. Inr r),
     qs_more_like_this = (\<lambda>qs obj. Inr (filter (\<lambda>x. x \<noteq> obj) qs)),
     paginate_queryset = (\<lambda>qs s. Inr (if s = 0 then None else Some (take s qs), s)),
     get_serializer = (\<lambda>inst many s.
        if many then Inr (case inst of Page p \<Rightarrow> p | QuerySet q \<Rightarrow> q, s)
        else Inl ''not iterable''),
     serializer_data = (\<lambda>ser. Inr (map (\<lambda>x. 2 * x) ser)),
     get_paginated_response = (\<lambda>d s. Inr (Paginated (length d) d, s)),
     Response = Plain \<rparr>"

section \<open>The query-parameter filter\<close>

text \<open>
  The filter backend (\<^verbatim>\<open>drf_haystack.filters.HaystackFilter\<close>, imported by the view's
  base class and by src/tests/test\_filters.py) is not among the sources. What follows is
  written from the specification's data model:

  "FilterExpression: field name, lookup/operator (equals, contains, negation, range), and
  one or more values; combined into AND across distinct fields, OR within repeated values
  for one field."

  and from the requests of src/tests/test\_filters.py, where the values of one field are
  written into one query parameter, separated by the view's \<^verbatim>\<open>lookup_sep\<close>
  (\<^verbatim>\<open>","\<close> unless the view sets another, \<^verbatim>\<open>";"\<close> in one test).
\<close>

text \<open>
  A search result is an ordered mapping from field names to indexed values. The search
  backend decides whether an indexed value satisfies a lookup for a given value; it is a
  parameter, \<open>backend l stored v\<close>, where \<open>stored\<close> is \<open>None\<close> for a field the result
  does not have.
\<close>

type_synonym search_result = "(string \<times> string) list"

type_synonym 'l backend = "'l \<Rightarrow> string option \<Rightarrow> string \<Rightarrow> bool"

text \<open>
  Modelled from the spec: the splitting of a parameter's value at the lookup separator
  (part of the missing \<^verbatim>\<open>HaystackFilter\<close>), a string split at every occurrence of a
  one-character separator; \<open>join_sep\<close> is how a request writes several values into one
  parameter.
\<close>

fun split_sep :: "char \<Rightarrow> string \<Rightarrow> string list" where
  "split_sep sep [] = [[]]"
| "split_sep sep (c # cs) =
     (if c = sep then [] # split_sep sep cs
      else (case split_sep sep cs of
              [] \<Rightarrow> [[c]]
            | t # ts \<Rightarrow> (c # t) # ts))"

fun join_sep :: "char \<Rightarrow> string list \<Rightarrow> string" where
  "join_sep sep [] = []"
| "join_sep sep [v] = v"
| "join_sep sep (v # w # vs) = v @ sep # join_sep sep (w # vs)"

text \<open>
  Modelled from the spec: the FilterExpression of the data model (built by the missing
  \<^verbatim>\<open>HaystackFilter\<close>): a field name, a lookup and one or more values.
\<close>

record 'l filter_expression =
  fe_field :: string
  fe_lookup :: 'l
  fe_values :: "string list"

text \<open>
  Modelled from the spec: the translation of one query parameter into a FilterExpression
  (the missing \<^verbatim>\<open>HaystackFilter.build_filter\<close>). The parameter's name is taken as already
  read into the field and the lookup it names; its value is split at the separator.
\<close>

type_synonym 'l query_param = "(string \<times> 'l) \<times> string"

definition filter_expression_of :: "char \<Rightarrow> 'l query_param \<Rightarrow> 'l filter_expression" where
  "filter_expression_of sep p =
     \<lparr>fe_field = fst (fst p), fe_lookup = snd (fst p), fe_values = split_sep sep (snd p)\<rparr>"

definition build_filter :: "char \<Rightarrow> 'l query_param list \<Rightarrow> 'l filter_expression list" where
  "build_filter sep params = map (filter_expression_of sep) params"

text \<open>
  Modelled from the spec: how the expressions are combined (the missing
  \<^verbatim>\<open>HaystackFilter.filter_queryset\<close>): "OR within repeated values for one field", "AND
  across distinct fields". The filtered queryset keeps the results that satisfy the
  combined filter, in their order.
\<close>

definition satisfies :: "'l backend \<Rightarrow> search_result \<Rightarrow> 'l filter_expression \<Rightarrow> bool" where
  "satisfies backend r e =
     list_ex (backend (fe_lookup e) (map_of r (fe_field e))) (fe_values e)"

definition haystack_filter ::
  "'l backend \<Rightarrow> char \<Rightarrow> 'l query_param list \<Rightarrow> search_result list \<Rightarrow> search_result list" where
  "haystack_filter backend sep params queryset =
     filter (\<lambda>r. list_all (satisfies backend r) (build_filter sep params)) queryset"

text \<open>
  A request that gives each field a list of values writes them into one parameter.
\<close>

definition request_params :: "char \<Rightarrow> ((string \<times> 'l) \<times> string list) list \<Rightarrow> 'l query_param list" where
  "request_params sep given = map (\<lambda>(k, vs). (k, join_sep sep vs)) given"

subsection \<open>A small data set\<close>

text \<open>
  Five persons, and a backend with the single lookup "equals".
\<close>

definition person :: "string \<Rightarrow> string \<Rightarrow> search_result" where
  "person f l = [(''firstname'', f), (''lastname'', l)]"

definition persons :: "search_result list" where
  "persons = [person ''Bruno'' ''Hood'', person ''John'' ''McClane'',
              person ''Walker'' ''Hickman'', person ''Abel'' ''Hood'',
              person ''Walker'' ''Foreman'']"

definition equals_backend :: "unit backend" where
  "equals_backend l stored v = (stored = Some v)"

section \<open>Properties\<close>

subsection \<open>The more-like-this route\<close>

lemma serialized_Inr:
  assumes "get_serializer m inst True s = Inr (ser, s')"
      and "serializer_data m ser = Inr d"
  shows "serialized m inst s = Inr (d, s')"
  using assms by (simp add: serialized_def)

text \<open>An exception of the filter or of the object lookup leaves the method as it is.\<close>

lemma more_like_this_filter_raises:
  assumes "get_queryset m self = Inr (qs0, s1)"
      and "filter_queryset m qs0 s1 = Inl e"
  shows "more_like_this m request pk self = Inl e"
  using assms by (simp add: more_like_this_def)

lemma more_like_this_get_object_raises:
  assumes "get_queryset m self = Inr (qs0, s1)"
      and "filter_queryset m qs0 s1 = Inr (queryset, s2)"
      and "get_object m s2 = Inl e"
  shows "more_like_this m request pk self = Inl e"
  using assms by (simp add: more_like_this_def)

text \<open>The arguments \<^verbatim>\<open>request\<close> and \<^verbatim>\<open>pk\<close> do not reach the result.\<close>

lemma more_like_this_ignores_arguments:
  "more_like_this m request pk self = more_like_this m request' pk' self"
  by (simp add: more_like_this_def)

text \<open>
  Claim C8. The route is declared for GET, as a detail route whose path component is
  \<^verbatim>\<open>more-like-this\<close>, so that the documented pattern is \<^verbatim>\<open>{prefix}/{pk}/more-like-this/\<close>.
  Whenever the calls the method makes return normally, the queryset handed to the
  paginator is the more-like-this queryset of the filtered queryset for the object of
  \<^verbatim>\<open>get_object\<close>, and the response carries the serializer's data (\<^verbatim>\<open>many=True\<close>): of the
  page, through \<^verbatim>\<open>get_paginated_response\<close>, when the paginator gives a page, and of the
  whole more-like-this queryset, in a plain \<^verbatim>\<open>Response\<close>, when it gives none.
\<close>

theorem more_like_this_response:
  assumes "get_queryset m self = Inr (qs0, s1)"
      and "filter_queryset m qs0 s1 = Inr (queryset, s2)"
      and "get_object m s2 = Inr (res, s3)"
      and "result_object m res = Inr obj"
      and "qs_more_like_this m queryset obj = Inr mlt_queryset"
      and "paginate_queryset m mlt_queryset s3 = Inr (page, s4)"
      and "get_serializer m (case page of Some p \<Rightarrow> Page p | None \<Rightarrow> QuerySet mlt_queryset)
             True s4 = Inr (ser, s5)"
      and "serializer_data m ser = Inr d"
  shows "methods more_like_this_route = [''get''] \<and> detail more_like_this_route \<and>
         detail_route_pattern prefix more_like_this_route = prefix @ ''/{pk}/more-like-this/'' \<and>
         more_like_this m request pk self =
           (case page of
              Some p \<Rightarrow> map_sum id fst (get_paginated_response m d s5)
            | None \<Rightarrow> Inr (Response m d))"
proof -
  have route: "methods more_like_this_route = [''get''] \<and> detail more_like_this_route \<and>
      detail_route_pattern prefix more_like_this_route = prefix @ ''/{pk}/more-like-this/''"
    by (simp add: more_like_this_route_def detail_route_pattern_def)
  have body: "more_like_this m request pk self =
      (case page of
         Some p \<Rightarrow> map_sum id fst (get_paginated_response m d s5)
       | None \<Rightarrow> Inr (Response m d))"
  proof (cases page)
    case None
    with assms(7) have "get_serializer m (QuerySet mlt_queryset) True s4 = Inr (ser, s5)"
      by simp
    then have "serialized m (QuerySet mlt_queryset) s4 = Inr (d, s5)"
      using assms(8) by (rule serialized_Inr)
    with None assms(1-6) show ?thesis
      by (simp add: more_like_this_def)
  next
    case (Some p)
    with assms(7) have "get_serializer m (Page p) True s4 = Inr (ser, s5)"
      by simp
    then have "serialized m (Page p) s4 = Inr (d, s5)"
      using assms(8) by (rule serialized_Inr)
    with Some assms(1-6) show ?thesis
      by (cases "get_paginated_response m d s5") (auto simp add: more_like_this_def)
  qed
  from route body show ?thesis by simp
qed

text \<open>
  The theorem at the small instance, once with a page size of 2 and once with pagination
  off: the filtered queryset is \<open>[2, 4, 6, 8]\<close>, the object is 4, its more-like-this
  queryset is \<open>[2, 6, 8]\<close>.
\<close>

theorem more_like_this_response_witness:
  "more_like_this demo () (Some (4::nat)) 2 = Inr (Paginated 2 [4, 12]) \<and>
   more_like_this demo () (Some (4::nat)) 0 = Inr (Plain [4, 12, 16]) \<and>
   detail_route_pattern ''search'' more_like_this_route = ''search/{pk}/more-like-this/''"
proof -
  have q: "get_queryset demo s = Inr ([1, 2, 3, 4, 6, 8], s)" for s
    by (simp add: demo_def)
  have f: "filter_queryset demo [1, 2, 3, 4, 6, 8] s = Inr ([2, 4, 6, 8], s)" for s
    by (simp add: demo_def)
  have g: "get_object demo s = Inr (4, s)" for s
    by (simp add: demo_def)
  have r: "result_object demo 4 = Inr 4"
    by (simp add: demo_def)
  have l: "qs_more_like_this demo [2, 4, 6, 8] 4 = Inr [2, 6, 8]"
    by (simp add: demo_def)
  have p2: "paginate_queryset demo [2, 6, 8] 2 = Inr (Some [2, 6], 2)"
    by (simp add: demo_def)
  have p0: "paginate_queryset demo [2, 6, 8] 0 = Inr (None, 0)"
    by (simp add: demo_def)
  have s2: "get_serializer demo (case Some [2, 6] of Some p \<Rightarrow> Page p | None \<Rightarrow> QuerySet [2, 6, 8])
      True 2 = Inr ([2, 6], 2)"
    by (simp add: demo_def)
  have s0: "get_serializer demo (case None of Some p \<Rightarrow> Page p | None \<Rightarrow> QuerySet [2, 6, 8])
      True 0 = Inr ([2, 6, 8], 0)"
    by (simp add: demo_def)
  have d2: "serializer_data demo [2, 6] = Inr [4, 12]"
    by (simp add: demo_def)
  have d0: "serializer_data demo [2, 6, 8] = Inr [4, 12, 16]"
    by (simp add: demo_def)
  have paged: "more_like_this demo () (Some (4::nat)) 2 = Inr (Paginated 2 [4, 12])"
    using more_like_this_response [OF q f g r l p2 s2 d2, of "''search''" "()" "Some (4::nat)"]
    by (simp add: demo_def)
  have plain: "more_like_this demo () (Some (4::nat)) 0 = Inr (Plain [4, 12, 16])"
    using more_like_this_response [OF q f g r l p0 s0 d0, of "''search''" "()" "Some (4::nat)"]
    by (simp add: demo_def)
  have pat: "detail_route_pattern ''search'' more_like_this_route = ''search/{pk}/more-like-this/''"
    using more_like_this_response [OF q f g r l p0 s0 d0, of "''search''" "()" "Some (4::nat)"]
    by simp
  from paged plain pat show ?thesis by simp
qed

subsection \<open>The query-parameter filter\<close>

lemma split_sep_not_Nil: "split_sep sep s \<noteq> []"
  by (induction s) (auto split: list.splits)

lemma split_sep_no_sep: "sep \<notin> set v \<Longrightarrow> split_sep sep v = [v]"
  by (induction v) auto

lemma split_sep_append:
  "sep \<notin> set v \<Longrightarrow> split_sep sep (v @ sep # rest) = v # split_sep sep rest"
  by (induction v) auto

lemma split_sep_join_sep:
  "vs \<noteq> [] \<Longrightarrow> \<forall>v \<in> set vs. sep \<notin> set v \<Longrightarrow> split_sep sep (join_sep sep vs) = vs"
proof (induction sep vs rule: join_sep.induct)
  case (1 sep)
  then show ?case by simp
next
  case (2 sep v)
  then show ?case by (simp add: split_sep_no_sep)
next
  case (3 sep v w vs)
  then show ?case by (simp add: split_sep_append)
qed

lemma satisfies_request_param:
  assumes "vs \<noteq> []" and "\<forall>v \<in> set vs. sep \<notin> set v"
  shows "satisfies backend r (filter_expression_of sep ((f, l), join_sep sep vs)) =
         (\<exists>v \<in> set vs. backend l (map_of r f) v)"
  using assms
  by (simp add: satisfies_def filter_expression_of_def split_sep_join_sep list_ex_iff)

text \<open>
  Claim C1. A request gives each of several fields one or more values, written into one
  parameter with the lookup separator between them (no value contains the separator).
  The filtered queryset keeps exactly the results for which every field's predicate
  holds, and a field's predicate holds when the backend accepts one of its values: AND
  across the fields, OR within the values of one field.
\<close>

theorem haystack_filter_and_or:
  assumes "\<forall>(k, vs) \<in> set given. vs \<noteq> [] \<and> (\<forall>v \<in> set vs. sep \<notin> set v)"
  shows "haystack_filter backend sep (request_params sep given) queryset =
         filter (\<lambda>r. \<forall>((f, l), vs) \<in> set given. \<exists>v \<in> set vs. backend l (map_of r f) v)
           queryset"
proof -
  have "list_all (satisfies backend r) (build_filter sep (request_params sep given)) =
        (\<forall>((f, l), vs) \<in> set given. \<exists>v \<in> set vs. backend l (map_of r f) v)" for r
    using assms
  proof (induction given)
    case Nil
    then show ?case by (simp add: build_filter_def request_params_def)
  next
    case (Cons p ps)
    obtain f l vs where p: "p = ((f, l), vs)" by (cases p) auto
    from Cons.prems p have ok: "vs \<noteq> []" "\<forall>v \<in> set vs. sep \<notin> set v"
      by auto
    from Cons.prems have rest: "\<forall>(k, vs) \<in> set ps. vs \<noteq> [] \<and> (\<forall>v \<in> set vs. sep \<notin> set v)"
      by simp
    have tl: "list_all (satisfies backend r) (build_filter sep (request_params sep ps)) =
        (\<forall>((f, l), vs) \<in> set ps. \<exists>v \<in> set vs. backend l (map_of r f) v)"
      using Cons.IH [OF rest] .
    have hd: "satisfies backend r (filter_expression_of sep ((f, l), join_sep sep vs)) =
        (\<exists>v \<in> set vs. backend l (map_of r f) v)"
      using ok by (rule satisfies_request_param)
    from tl hd p show ?case
      by (simp add: build_filter_def request_params_def)
  qed
  then show ?thesis by (simp add: haystack_filter_def)
qed

text \<open>
  The theorem at the request of the claim, on the small data set: last name Hickman or
  Hood and first name Walker or Bruno leaves Bruno Hood and Walker Hickman; the last names
  alone leave three persons.
\<close>

theorem haystack_filter_and_or_witness:
  "haystack_filter equals_backend (CHR '','')
     [((''lastname'', ()), ''Hickman,Hood''), ((''firstname'', ()), ''Walker,Bruno'')] persons =
   [person ''Bruno'' ''Hood'', person ''Walker'' ''Hickman''] \<and>
   haystack_filter equals_backend (CHR '','') [((''lastname'', ()), ''Hickman,Hood'')] persons =
   [person ''Bruno'' ''Hood'', person ''Walker'' ''Hickman'', person ''Abel'' ''Hood'']"
proof -
  have both: "haystack_filter equals_backend (CHR '','')
      [((''lastname'', ()), ''Hickman,Hood''), ((''firstname'', ()), ''Walker,Bruno'')] persons =
      [person ''Bruno'' ''Hood'', person ''Walker'' ''Hickman'']"
    using haystack_filter_and_or [of
      "[((''lastname'', ()), [''Hickman'', ''Hood'']), ((''firstname'', ()), [''Walker'', ''Bruno''])]"
      "CHR '',''" equals_backend persons]
    by (simp add: request_params_def persons_def person_def equals_backend_def)
  have one: "haystack_filter equals_backend (CHR '','') [((''lastname'', ()), ''Hickman,Hood'')] persons =
      [person ''Bruno'' ''Hood'', person ''Walker'' ''Hickman'', person ''Abel'' ''Hood'']"
    using haystack_filter_and_or [of
      "[((''lastname'', ()), [''Hickman'', ''Hood''])]"
      "CHR '',''" equals_backend persons]
    by (simp add: request_params_def persons_def person_def equals_backend_def)
  from both one show ?thesis by simp
qed

end
